theory Spec2Isabelle
  imports Complex_Main
begin

section \<open>Python values, truthiness and exceptions\<close>

text \<open>
  The aggregation code of amcat4 works on the JSON documents that the Elasticsearch client
  returns and on the request bodies it builds. Both are Python values: \<open>None\<close>, booleans,
  numbers, strings, lists and dicts with string keys. A dict is an association list in
  insertion order, with each key once. \<open>PDatetime us\<close> is the \<open>datetime\<close> that lies \<open>us\<close>
  microseconds after the epoch (UTC), \<open>PDate d\<close> the \<open>date\<close> that lies \<open>d\<close> days after
  1970-01-01. A float is kept as the rational it denotes; float arithmetic rounds its
  results to binary64, see \<open>float_round\<close> below.
\<close>

datatype pyval =
    PNone
  | PBool bool
  | PInt int
  | PFloat rat
  | PStr string
  | PList "pyval list"
  | PDict "(string \<times> pyval) list"
  | PDatetime int
  | PDate int

datatype error =
    ValueError string
  | KeyError string
  | TypeError
  | AttributeError
  | DatetimeRangeError
  | RecursionError
  | Exception string
  | ExceptionWith string pyval
  | TransportError string

text \<open>\<open>bool(v)\<close>, as used by \<open>if v:\<close>, \<open>v or w\<close> and \<open>if x := v:\<close>.\<close>

fun truthy :: "pyval \<Rightarrow> bool" where
  "truthy PNone = False"
| "truthy (PBool b) = b"
| "truthy (PInt i) = (i \<noteq> 0)"
| "truthy (PFloat r) = (r \<noteq> 0)"
| "truthy (PStr s) = (s \<noteq> [])"
| "truthy (PList xs) = (xs \<noteq> [])"
| "truthy (PDict kvs) = (kvs \<noteq> [])"
| "truthy (PDatetime t) = True"
| "truthy (PDate d) = True"

text \<open>\<open>d[k]\<close> for a string key: only a dict can be subscripted with a string.\<close>

fun subscript :: "pyval \<Rightarrow> string \<Rightarrow> error + pyval" where
  "subscript (PDict kvs) k = (case map_of kvs k of None \<Rightarrow> Inl (KeyError k) | Some v \<Rightarrow> Inr v)"
| "subscript v k = Inl TypeError"

text \<open>\<open>d.get(k, default)\<close>: only a dict has the method.\<close>

fun dict_get :: "pyval \<Rightarrow> string \<Rightarrow> pyval \<Rightarrow> error + pyval" where
  "dict_get (PDict kvs) k d = Inr (case map_of kvs k of None \<Rightarrow> d | Some v \<Rightarrow> v)"
| "dict_get v k d = Inl AttributeError"

text \<open>\<open>d.items()\<close>.\<close>

fun dict_items :: "pyval \<Rightarrow> error + (string \<times> pyval) list" where
  "dict_items (PDict kvs) = Inr kvs"
| "dict_items v = Inl AttributeError"

text \<open>\<open>d[k] = v\<close>: an existing key keeps its place, a new key goes to the end.\<close>

fun dict_set :: "(string \<times> pyval) list \<Rightarrow> string \<Rightarrow> pyval \<Rightarrow> (string \<times> pyval) list" where
  "dict_set [] k v = [(k, v)]"
| "dict_set ((k', v') # kvs) k v = (if k' = k then (k, v) # kvs else (k', v') # dict_set kvs k v)"

text \<open>\<open>d.update(items)\<close> and \<open>dict(items)\<close>.\<close>

definition dict_update :: "(string \<times> pyval) list \<Rightarrow> (string \<times> pyval) list \<Rightarrow> (string \<times> pyval) list" where
  "dict_update d items = fold (\<lambda>(k, v) acc. dict_set acc k v) items d"

definition dict_of :: "(string \<times> pyval) list \<Rightarrow> (string \<times> pyval) list" where
  "dict_of items = dict_update [] items"

text \<open>Iterating over a value (\<open>for x in v\<close>, \<open>yield from v\<close>): a dict yields its keys and a
  string its characters; \<open>None\<close>, numbers and dates are not iterable.\<close>

fun py_iter :: "pyval \<Rightarrow> error + pyval list" where
  "py_iter (PList xs) = Inr xs"
| "py_iter (PDict kvs) = Inr (map (\<lambda>(k, v). PStr k) kvs)"
| "py_iter (PStr s) = Inr (map (\<lambda>c. PStr [c]) s)"
| "py_iter v = Inl TypeError"

text \<open>The value of a number; \<open>True\<close> and \<open>False\<close> count as 1 and 0 in arithmetic.\<close>

fun number_of :: "pyval \<Rightarrow> rat option" where
  "number_of (PBool b) = Some (if b then 1 else 0)"
| "number_of (PInt i) = Some (of_int i)"
| "number_of (PFloat r) = Some r"
| "number_of v = None"

text \<open>
  \<open>x == y\<close>. Numbers are compared by value, whatever their type (\<open>True == 1 == 1.0\<close>);
  lists are compared element by element; two dicts are equal when they have the same
  keys with equal values, in whatever order.
\<close>

definition num_eq :: "rat \<Rightarrow> pyval \<Rightarrow> bool" where
  "num_eq a y = (case number_of y of None \<Rightarrow> False | Some b \<Rightarrow> a = b)"

fun py_eq :: "pyval \<Rightarrow> pyval \<Rightarrow> bool"
  and py_eq_list :: "pyval list \<Rightarrow> pyval list \<Rightarrow> bool"
  and py_eq_items :: "(string \<times> pyval) list \<Rightarrow> (string \<times> pyval) list \<Rightarrow> bool" where
  "py_eq PNone y = (y = PNone)"
| "py_eq (PBool b) y = num_eq (if b then 1 else 0) y"
| "py_eq (PInt i) y = num_eq (of_int i) y"
| "py_eq (PFloat r) y = num_eq r y"
| "py_eq (PStr s) y = (y = PStr s)"
| "py_eq (PList xs) y = (case y of PList ys \<Rightarrow> py_eq_list xs ys | _ \<Rightarrow> False)"
| "py_eq (PDict d) y =
     (case y of PDict d' \<Rightarrow> set (map fst d) = set (map fst d') \<and> py_eq_items d d' | _ \<Rightarrow> False)"
| "py_eq (PDatetime t) y = (y = PDatetime t)"
| "py_eq (PDate d) y = (y = PDate d)"
| "py_eq_list [] ys = (ys = [])"
| "py_eq_list (x # xs) ys = (case ys of [] \<Rightarrow> False | y # ys' \<Rightarrow> py_eq x y \<and> py_eq_list xs ys')"
| "py_eq_items [] d' = True"
| "py_eq_items ((k, v) # d) d' =
     ((case map_of d' k of None \<Rightarrow> False | Some v' \<Rightarrow> py_eq v v') \<and> py_eq_items d d')"

subsection \<open>Floats and timestamps\<close>

text \<open>
  The result of an operation on floats is the exact result rounded to the nearest
  binary64 number, ties to the even mantissa. \<open>binary_exponent a\<close> is the \<open>e\<close> with
  \<open>2^e \<le> a < 2^(e+1)\<close> for a positive \<open>a\<close>; a binary64 number has 53 bits of mantissa and
  no exponent below -1022.
\<close>

function bit_length :: "int \<Rightarrow> nat" where
  "bit_length n = (if n \<le> 0 then 0 else Suc (bit_length (n div 2)))"
  by auto
termination
  by (relation "measure nat") auto

declare bit_length.simps [simp del]

definition pow2 :: "int \<Rightarrow> rat" where
  "pow2 e = (if 0 \<le> e then 2 ^ nat e else 1 / 2 ^ nat (- e))"

definition binary_exponent :: "rat \<Rightarrow> int" where
  "binary_exponent a =
     (case quotient_of a of
        (p, q) \<Rightarrow>
          let e0 = int (bit_length p) - int (bit_length q)
          in if pow2 e0 \<le> a then e0 else e0 - 1)"

definition round_half_even :: "rat \<Rightarrow> int" where
  "round_half_even x =
     (let f = \<lfloor>x\<rfloor>; d = x - of_int f
      in if d < 1 / 2 then f else if 1 / 2 < d then f + 1 else if even f then f else f + 1)"

definition float_round :: "rat \<Rightarrow> rat" where
  "float_round x =
     (if x = 0 then 0
      else let ulp = pow2 (max (binary_exponent \<bar>x\<bar>) (- 1022) - 52)
           in sgn x * of_int (round_half_even (\<bar>x\<bar> / ulp)) * ulp)"

text \<open>The largest binary64 number.\<close>

definition float_max :: rat where
  "float_max = pow2 1024 - pow2 971"

text \<open>
  The left operand of \<open>value / 1000.\<close> as a float: an int is converted, and is too large
  beyond the largest float (OverflowError); anything but a number is a TypeError.
\<close>

definition float_of :: "pyval \<Rightarrow> error + rat" where
  "float_of v =
     (case v of
        PBool b \<Rightarrow> Inr (if b then 1 else 0)
      | PInt i \<Rightarrow> (let x = float_round (of_int i)
                   in if float_max < \<bar>x\<bar> then Inl DatetimeRangeError else Inr x)
      | PFloat r \<Rightarrow> Inr (float_round r)
      | _ \<Rightarrow> Inl TypeError)"

text \<open>
  \<open>datetime.utcfromtimestamp(value / 1000.)\<close>, as the microseconds after the epoch of the
  datetime it returns. The quotient is a float \<open>t\<close>. The library splits it into whole
  seconds and a fraction (\<open>modf\<close>, towards zero), multiplies the fraction by \<open>1e6\<close>,
  rounds the product half to even and carries into the seconds. It accepts the years 1
  to 9999. What it raises outside of them, and what the conversion of a too large int
  raises (ValueError, OverflowError or OSError), is one error here.
\<close>

definition utcfromtimestamp_ms :: "pyval \<Rightarrow> error + int" where
  "utcfromtimestamp_ms v =
     (case float_of v of
        Inl e \<Rightarrow> Inl e
      | Inr x \<Rightarrow>
          let t = float_round (x / 1000);
              intpart = (if 0 \<le> t then \<lfloor>t\<rfloor> else \<lceil>t\<rceil>);
              us = round_half_even (float_round ((t - of_int intpart) * 1000000));
              sec = (if 1000000 \<le> us then intpart + 1 else if us < 0 then intpart - 1 else intpart);
              us' = (if 1000000 \<le> us then us - 1000000 else if us < 0 then us + 1000000 else us)
          in if - 62135596800 \<le> sec \<and> sec \<le> 253402300799
             then Inr (sec * 1000000 + us')
             else Inl DatetimeRangeError)"

text \<open>\<open>value.date()\<close> of a datetime: the time of day is dropped.\<close>

definition date_of :: "int \<Rightarrow> pyval" where
  "date_of us = PDate (us div 86400000000)"

text \<open>Sequencing of computations that may raise.\<close>

definition bindE :: "error + 'a \<Rightarrow> ('a \<Rightarrow> error + 'c) \<Rightarrow> error + 'c" where
  "bindE m f = (case m of Inl e \<Rightarrow> Inl e | Inr x \<Rightarrow> f x)"

text \<open>A comprehension whose element expression may raise: it stops at the first exception.\<close>

fun mapE :: "('a \<Rightarrow> error + 'c) \<Rightarrow> 'a list \<Rightarrow> error + 'c list" where
  "mapE f [] = Inr []"
| "mapE f (x # xs) =
     (case f x of
        Inl e \<Rightarrow> Inl e
      | Inr y \<Rightarrow> (case mapE f xs of Inl e \<Rightarrow> Inl e | Inr ys \<Rightarrow> Inr (y # ys)))"

text \<open>\<open>sep.join(xs)\<close>.\<close>

fun join :: "string \<Rightarrow> string list \<Rightarrow> string" where
  "join sep [] = []"
| "join sep [x] = x"
| "join sep (x # y # ys) = x @ sep @ join sep (y # ys)"

section \<open>The Elasticsearch client and the global state (elastic.py)\<close>

text \<open>An index argument is one index name or a list of names (\<open>Union[str, List[str]]\<close>).\<close>

datatype index = Index string | Indices "string list"

text \<open>
  The \<open>queries\<close> argument: absent, a mapping from label to query string, or a sequence of
  query strings (also what \<open>queries.values()\<close> hands to \<open>build_body\<close>).
\<close>

datatype py_queries = NoQueries | QueryDict "(string \<times> string) list" | QueryList "string list"

text \<open>The keyword arguments of \<open>es().search\<close> and \<open>es().count\<close>; an argument that is not
  passed is \<open>None\<close>.\<close>

record search_request =
  sr_index :: index
  sr_size :: nat
  sr_query :: "pyval option"
  sr_aggregations :: pyval
  sr_runtime_mappings :: "pyval option"

record count_request =
  cr_index :: index
  cr_body :: pyval

datatype es_call =
    SearchCall search_request
  | CountCall count_request
  | GetMappingCall string

text \<open>
  The interval codec of \<open>amcat4.date_mappings\<close>: what \<open>interval_mapping\<close> returns for an
  interval it knows, with its three methods.
\<close>

record date_mapping =
  dm_fieldname :: "string \<Rightarrow> string"
  dm_postprocess :: "pyval \<Rightarrow> error + pyval"
  dm_mapping :: "string \<Rightarrow> (string \<times> pyval) list"

text \<open>
  What the code is run against. The three \<open>elastic_\<close> fields are the Elasticsearch client:
  each call takes the state \<open>'b\<close> of the cluster and returns a response, or raises, and a
  new state. \<open>interval_mapping\<close> (amcat4.date_mappings), \<open>build_body\<close> and
  \<open>normalize_queries\<close> (amcat4.query) are the helpers that aggregate.py imports; they are
  parameters of the model, and every theorem holds for each choice of them.
  \<open>recursion_room\<close> is the number of nested activations of the generator
  \<open>_elastic_aggregate\<close> that fit under the recursion limit of the interpreter
  (\<open>sys.getrecursionlimit()\<close>, 1000 unless it is changed, less the frames that are on the
  stack already); it is taken to be the same for every run within one call.
\<close>

record 'b env =
  elastic_search :: "search_request \<Rightarrow> 'b \<Rightarrow> (error + pyval) \<times> 'b"
  elastic_count :: "count_request \<Rightarrow> 'b \<Rightarrow> (error + pyval) \<times> 'b"
  elastic_get_mapping :: "string \<Rightarrow> 'b \<Rightarrow> (error + pyval) \<times> 'b"
  interval_mapping :: "string option \<Rightarrow> date_mapping option"
  build_body :: "py_queries \<Rightarrow> pyval \<Rightarrow> error + pyval"
  normalize_queries :: "py_queries \<Rightarrow> error + (string \<times> string) list"
  recursion_room :: nat

text \<open>
  The module state of elastic.py: the client \<open>_ES\<close> (\<open>None\<close> until \<open>setup_elastic\<close>) and
  \<open>FIELD_CACHE\<close>. \<open>calls\<close> records every request sent to the backend with what came
  back, in order; the code never reads it.
\<close>

record 'b world =
  ES_client :: "'b option"
  FIELD_CACHE :: "(string \<times> pyval) list"
  calls :: "(es_call \<times> (error + pyval)) list"

definition es :: "'b world \<Rightarrow> error + 'b" where
  "es w = (case ES_client w of
             None \<Rightarrow> Inl (Exception ''Elasticsearch not setup yet'')
           | Some b \<Rightarrow> Inr b)"

definition es_search :: "'b env \<Rightarrow> search_request \<Rightarrow> 'b \<Rightarrow> 'b world \<Rightarrow> (error + pyval) \<times> 'b world" where
  "es_search env rq b w =
     (case elastic_search env rq b of
        (r, b') \<Rightarrow> (r, w\<lparr>ES_client := Some b', calls := calls w @ [(SearchCall rq, r)]\<rparr>))"

definition es_count :: "'b env \<Rightarrow> count_request \<Rightarrow> 'b \<Rightarrow> 'b world \<Rightarrow> (error + pyval) \<times> 'b world" where
  "es_count env rq b w =
     (case elastic_count env rq b of
        (r, b') \<Rightarrow> (r, w\<lparr>ES_client := Some b', calls := calls w @ [(CountCall rq, r)]\<rparr>))"

definition es_get_mapping :: "'b env \<Rightarrow> string \<Rightarrow> 'b \<Rightarrow> 'b world \<Rightarrow> (error + pyval) \<times> 'b world" where
  "es_get_mapping env ix b w =
     (case elastic_get_mapping env ix b of
        (r, b') \<Rightarrow> (r, w\<lparr>ES_client := Some b', calls := calls w @ [(GetMappingCall ix, r)]\<rparr>))"

text \<open>\<open>_get_type_from_property\<close>.\<close>

definition get_type_from_property :: "pyval \<Rightarrow> error + pyval" where
  "get_type_from_property properties =
     bindE (dict_get properties ''meta'' (PDict [])) (\<lambda>meta.
     bindE (dict_get meta ''amcat4_type'' PNone) (\<lambda>result.
       if truthy result then Inr result else subscript properties ''type''))"

text \<open>The body of the loop of \<open>_get_fields\<close>, for one item \<open>(k, v)\<close> of the properties.\<close>

definition get_fields_item :: "string \<times> pyval \<Rightarrow> error + (string \<times> pyval)" where
  "get_fields_item = (\<lambda>(k, v).
     bindE (get_type_from_property v) (\<lambda>ty.
     bindE (dict_get v ''meta'' PNone) (\<lambda>meta.
       Inr (k, PDict (if truthy meta
                      then [(''name'', PStr k), (''type'', ty), (''meta'', meta)]
                      else [(''name'', PStr k), (''type'', ty)])))))"

text \<open>\<open>dict(_get_fields(index))\<close>: the request, then the loop over the properties.\<close>

definition get_fields_of_index :: "'b env \<Rightarrow> string \<Rightarrow> 'b world \<Rightarrow> (error + pyval) \<times> 'b world" where
  "get_fields_of_index env ix w =
     (case es w of
        Inl e \<Rightarrow> (Inl e, w)
      | Inr b \<Rightarrow>
          (case es_get_mapping env ix b w of
             (Inl e, w1) \<Rightarrow> (Inl e, w1)
           | (Inr r, w1) \<Rightarrow>
               (bindE (subscript r ix) (\<lambda>m.
                bindE (subscript m ''mappings'') (\<lambda>ms.
                bindE (subscript ms ''properties'') (\<lambda>ps.
                bindE (dict_items ps) (\<lambda>items.
                bindE (mapE get_fields_item items) (\<lambda>flds.
                  Inr (PDict (dict_of flds))))))), w1)))"

text \<open>\<open>get_index_fields\<close>: a cached entry is used when it is truthy (a non-empty dict).\<close>

definition get_index_fields :: "'b env \<Rightarrow> string \<Rightarrow> 'b world \<Rightarrow> (error + pyval) \<times> 'b world" where
  "get_index_fields env ix w =
     (case map_of (FIELD_CACHE w) ix of
        Some result \<Rightarrow>
          if truthy result then (Inr result, w)
          else (case get_fields_of_index env ix w of
                  (Inl e, w1) \<Rightarrow> (Inl e, w1)
                | (Inr result', w1) \<Rightarrow>
                    (Inr result', w1\<lparr>FIELD_CACHE := dict_set (FIELD_CACHE w1) ix result'\<rparr>))
      | None \<Rightarrow>
          (case get_fields_of_index env ix w of
             (Inl e, w1) \<Rightarrow> (Inl e, w1)
           | (Inr result', w1) \<Rightarrow>
               (Inr result', w1\<lparr>FIELD_CACHE := dict_set (FIELD_CACHE w1) ix result'\<rparr>)))"

text \<open>The inner loop of \<open>get_fields\<close> over the fields of one index.\<close>

fun merge_fields :: "(string \<times> pyval) list \<Rightarrow> (string \<times> pyval) list \<Rightarrow> (string \<times> pyval) list" where
  "merge_fields result [] = result"
| "merge_fields result ((f, ftype) # rest) =
     merge_fields
       (case map_of result f of
          Some old \<Rightarrow>
            if \<not> py_eq old ftype
            then dict_set result f
                   (PDict [(''name'', PStr f), (''type'', PStr ''keyword''),
                           (''meta'', PDict [(''merged'', PBool True)])])
            else result
        | None \<Rightarrow> dict_set result f ftype)
       rest"

text \<open>The outer loop of \<open>get_fields\<close> for a list of indices.\<close>

fun get_fields_loop :: "'b env \<Rightarrow> string list \<Rightarrow> (string \<times> pyval) list \<Rightarrow> 'b world
    \<Rightarrow> (error + pyval) \<times> 'b world" where
  "get_fields_loop env [] result w = (Inr (PDict result), w)"
| "get_fields_loop env (ix # ixs) result w =
     (case get_index_fields env ix w of
        (Inl e, w1) \<Rightarrow> (Inl e, w1)
      | (Inr flds, w1) \<Rightarrow>
          (case dict_items flds of
             Inl e \<Rightarrow> (Inl e, w1)
           | Inr items \<Rightarrow> get_fields_loop env ixs (merge_fields result items) w1))"

definition get_fields :: "'b env \<Rightarrow> index \<Rightarrow> 'b world \<Rightarrow> (error + pyval) \<times> 'b world" where
  "get_fields env ix w =
     (case ix of
        Index s \<Rightarrow> get_index_fields env s w
      | Indices ixs \<Rightarrow> get_fields_loop env ixs [] w)"

definition field_type :: "'b env \<Rightarrow> index \<Rightarrow> string \<Rightarrow> 'b world \<Rightarrow> (error + pyval) \<times> 'b world" where
  "field_type env ix field_name w =
     (case get_fields env ix w of
        (Inl e, w1) \<Rightarrow> (Inl e, w1)
      | (Inr flds, w1) \<Rightarrow>
          (bindE (subscript flds field_name) (\<lambda>f. subscript f ''type''), w1))"

section \<open>Axes and aggregations (aggregate.py)\<close>

text \<open>An optional string as a Python value, and its truthiness (\<open>if interval:\<close>).\<close>

definition opt_str :: "string option \<Rightarrow> pyval" where
  "opt_str x = (case x of None \<Rightarrow> PNone | Some s \<Rightarrow> PStr s)"

record axis =
  axis_field :: string
  axis_interval :: "string option"
  axis_name :: string

text \<open>\<open>Axis.__init__\<close>.\<close>

definition Axis :: "string \<Rightarrow> string option \<Rightarrow> string option \<Rightarrow> axis" where
  "Axis field interval name =
     \<lparr>axis_field = field, axis_interval = interval,
      axis_name =
        (case name of
           Some n \<Rightarrow> if n \<noteq> [] then n
                     else (case interval of
                             Some i \<Rightarrow> if i \<noteq> [] then field @ ''_'' @ i else field
                           | None \<Rightarrow> field)
         | None \<Rightarrow> (case interval of
                      Some i \<Rightarrow> if i \<noteq> [] then field @ ''_'' @ i else field
                    | None \<Rightarrow> field))\<rparr>"

record bound_axis =
  ba_axis :: axis
  ba_index :: index
  ba_ftype :: pyval

text \<open>\<open>BoundAxis.__init__\<close>: the pseudo axis \<open>_query\<close> is not looked up.\<close>

definition BoundAxis :: "'b env \<Rightarrow> index \<Rightarrow> axis \<Rightarrow> 'b world \<Rightarrow> (error + bound_axis) \<times> 'b world" where
  "BoundAxis env ix ax w =
     (if axis_field ax = ''_query''
      then (Inr \<lparr>ba_axis = ax, ba_index = ix, ba_ftype = PStr ''_query''\<rparr>, w)
      else (case field_type env ix (axis_field ax) w of
              (Inl e, w1) \<Rightarrow> (Inl e, w1)
            | (Inr t, w1) \<Rightarrow> (Inr \<lparr>ba_axis = ax, ba_index = ix, ba_ftype = t\<rparr>, w1)))"

definition ba_field :: "bound_axis \<Rightarrow> string" where
  "ba_field b = axis_field (ba_axis b)"

definition ba_name :: "bound_axis \<Rightarrow> string" where
  "ba_name b = axis_name (ba_axis b)"

definition ba_interval :: "bound_axis \<Rightarrow> string option" where
  "ba_interval b = axis_interval (ba_axis b)"

text \<open>\<open>BoundAxis.query\<close>.\<close>

definition axis_query :: "'b env \<Rightarrow> bound_axis \<Rightarrow> error + pyval" where
  "axis_query env b =
     (if \<not> truthy (ba_ftype b) then Inl (ValueError ''Please set index before using axis'')
      else if truthy (opt_str (ba_interval b)) then
        (if ba_ftype b = PStr ''date'' then
           (case interval_mapping env (ba_interval b) of
              Some m \<Rightarrow>
                Inr (PDict [(ba_name b,
                       PDict [(''terms'', PDict [(''field'', PStr (dm_fieldname m (ba_field b)))])])])
            | None \<Rightarrow>
                Inr (PDict [(ba_name b,
                       PDict [(''date_histogram'',
                               PDict [(''field'', PStr (ba_field b)),
                                      (''calendar_interval'', opt_str (ba_interval b))])])]))
         else
           Inr (PDict [(ba_name b,
                  PDict [(''histogram'',
                          PDict [(''field'', PStr (ba_field b)),
                                 (''interval'', opt_str (ba_interval b))])])]))
      else
        Inr (PDict [(ba_name b, PDict [(''terms'', PDict [(''field'', PStr (ba_field b))])])]))"

text \<open>\<open>BoundAxis.get_value\<close>.\<close>

definition axis_get_value :: "'b env \<Rightarrow> bound_axis \<Rightarrow> pyval \<Rightarrow> error + pyval" where
  "axis_get_value env b values =
     bindE (subscript values (ba_name b)) (\<lambda>v.
       case interval_mapping env (ba_interval b) of
         Some m \<Rightarrow> dm_postprocess m v
       | None \<Rightarrow>
           if ba_ftype b = PStr ''date'' then
             bindE (utcfromtimestamp_ms v) (\<lambda>ms.
               if ba_interval b \<in> {Some ''year'', Some ''month'', Some ''week'', Some ''day''}
               then Inr (date_of ms)
               else Inr (PDatetime ms))
           else Inr v)"

text \<open>\<open>BoundAxis.runtime_mappings\<close>: \<open>None\<close> without a codec for the interval.\<close>

definition axis_runtime_mappings :: "'b env \<Rightarrow> bound_axis \<Rightarrow> (string \<times> pyval) list option" where
  "axis_runtime_mappings env b =
     (case interval_mapping env (ba_interval b) of
        Some m \<Rightarrow> Some (dm_mapping m (ba_field b))
      | None \<Rightarrow> None)"

text \<open>\<open>_combine_mappings\<close>: \<open>None\<close> and empty mappings are skipped.\<close>

fun combine_mappings :: "(string \<times> pyval) list option list \<Rightarrow> (string \<times> pyval) list \<Rightarrow> (string \<times> pyval) list" where
  "combine_mappings [] result = result"
| "combine_mappings (None # ms) result = combine_mappings ms result"
| "combine_mappings (Some m # ms) result =
     combine_mappings ms (if m \<noteq> [] then dict_update result m else result)"

record aggregation =
  agg_field :: string
  agg_function :: string
  agg_name :: string

text \<open>\<open>Aggregation.__init__\<close>.\<close>

definition Aggregation :: "string \<Rightarrow> string \<Rightarrow> string option \<Rightarrow> aggregation" where
  "Aggregation field function name =
     \<lparr>agg_field = field, agg_function = function,
      agg_name = (case name of
                    Some n \<Rightarrow> if n \<noteq> [] then n else function @ ''_'' @ field
                  | None \<Rightarrow> function @ ''_'' @ field)\<rparr>"

record bound_aggregation =
  bg_aggregation :: aggregation
  bg_index :: index
  bg_ftype :: pyval

text \<open>\<open>BoundAggregation.__init__\<close>.\<close>

definition BoundAggregation :: "'b env \<Rightarrow> index \<Rightarrow> aggregation \<Rightarrow> 'b world
    \<Rightarrow> (error + bound_aggregation) \<times> 'b world" where
  "BoundAggregation env ix a w =
     (case field_type env ix (agg_field a) w of
        (Inl e, w1) \<Rightarrow> (Inl e, w1)
      | (Inr t, w1) \<Rightarrow> (Inr \<lparr>bg_aggregation = a, bg_index = ix, bg_ftype = t\<rparr>, w1))"

definition bg_name :: "bound_aggregation \<Rightarrow> string" where
  "bg_name a = agg_name (bg_aggregation a)"

definition bg_function :: "bound_aggregation \<Rightarrow> string" where
  "bg_function a = agg_function (bg_aggregation a)"

definition bg_field :: "bound_aggregation \<Rightarrow> string" where
  "bg_field a = agg_field (bg_aggregation a)"

text \<open>\<open>BoundAggregation.dsl_item\<close> and \<open>aggregation_dsl\<close>.\<close>

definition dsl_item :: "bound_aggregation \<Rightarrow> string \<times> pyval" where
  "dsl_item a = (bg_name a, PDict [(bg_function a, PDict [(''field'', PStr (bg_field a))])])"

definition aggregation_dsl :: "bound_aggregation list \<Rightarrow> pyval" where
  "aggregation_dsl aggregations = PDict (dict_of (map dsl_item aggregations))"

text \<open>\<open>BoundAggregation.get_value\<close>.\<close>

definition agg_get_value :: "bound_aggregation \<Rightarrow> pyval \<Rightarrow> error + pyval" where
  "agg_get_value a bucket =
     bindE (subscript bucket (bg_name a)) (\<lambda>sub.
     bindE (subscript sub ''value'') (\<lambda>result.
       if truthy result \<and> bg_ftype a = PStr ''date''
       then bindE (utcfromtimestamp_ms result) (\<lambda>ms. Inr (PDatetime ms))
       else Inr result))"

record aggregate_result =
  ar_axes :: "bound_axis list"
  ar_aggregations :: "bound_aggregation list"
  ar_data :: "pyval list list"
  ar_count_column :: string

text \<open>\<open>AggregateResult.as_dicts\<close>: \<open>zip\<close> stops at the shorter of keys and row.\<close>

definition as_dicts :: "aggregate_result \<Rightarrow> pyval list" where
  "as_dicts r =
     (let keys = map ba_name (ar_axes r) @ [ar_count_column r]
                 @ (if ar_aggregations r \<noteq> [] then map bg_name (ar_aggregations r) else [])
      in map (\<lambda>row. PDict (dict_of (zip keys row))) (ar_data r))"

section \<open>Running an aggregation (aggregate.py)\<close>

text \<open>A comprehension whose element expression may raise and may call the backend.\<close>

fun mapSE :: "('a \<Rightarrow> 'w \<Rightarrow> (error + 'c) \<times> 'w) \<Rightarrow> 'a list \<Rightarrow> 'w \<Rightarrow> (error + 'c list) \<times> 'w" where
  "mapSE f [] w = (Inr [], w)"
| "mapSE f (x # xs) w =
     (case f x w of
        (Inl e, w1) \<Rightarrow> (Inl e, w1)
      | (Inr y, w1) \<Rightarrow>
          (case mapSE f xs w1 of
             (Inl e, w2) \<Rightarrow> (Inl e, w2)
           | (Inr ys, w2) \<Rightarrow> (Inr (y # ys), w2)))"

text \<open>\<open>index if isinstance(index, str) else ",".join(index)\<close>.\<close>

definition joined_index :: "index \<Rightarrow> index" where
  "joined_index ix = (case ix of Index s \<Rightarrow> Index s | Indices xs \<Rightarrow> Index (join '','' xs))"

text \<open>
  \<open>_bare_aggregate\<close>. In \<open>es().search(query=query['query'], ...)\<close> the client is
  fetched before the arguments are evaluated. The result is the pair
  \<open>(cresult['count'], aresult['aggregations'])\<close>.
\<close>

definition bare_aggregate :: "'b env \<Rightarrow> index \<Rightarrow> (string \<times> string) list \<Rightarrow> pyval
    \<Rightarrow> bound_aggregation list \<Rightarrow> 'b world \<Rightarrow> (error + pyval \<times> pyval) \<times> 'b world" where
  "bare_aggregate env ix queries filters aggregations w =
     (case (if truthy filters \<or> queries \<noteq> []
            then build_body env (QueryDict queries) filters
            else Inr (PDict [(''match_all'', PDict [])])) of
        Inl e \<Rightarrow> (Inl e, w)
      | Inr query \<Rightarrow>
          (case es w of
             Inl e \<Rightarrow> (Inl e, w)
           | Inr b \<Rightarrow>
               (case subscript query ''query'' of
                  Inl e \<Rightarrow> (Inl e, w)
                | Inr q \<Rightarrow>
                    (case es_search env
                            \<lparr>sr_index = ix, sr_size = 0, sr_query = Some q,
                             sr_aggregations = aggregation_dsl aggregations,
                             sr_runtime_mappings = None\<rparr> b w of
                       (Inl e, w1) \<Rightarrow> (Inl e, w1)
                     | (Inr aresult, w1) \<Rightarrow>
                         (case es w1 of
                            Inl e \<Rightarrow> (Inl e, w1)
                          | Inr b1 \<Rightarrow>
                              (case es_count env \<lparr>cr_index = ix, cr_body = query\<rparr> b1 w1 of
                                 (Inl e, w2) \<Rightarrow> (Inl e, w2)
                               | (Inr cresult, w2) \<Rightarrow>
                                   (bindE (subscript cresult ''count'') (\<lambda>n.
                                    bindE (subscript aresult ''aggregations'') (\<lambda>a.
                                      Inr (n, a))), w2)))))))"

text \<open>
  The pieces of one round of \<open>_elastic_aggregate\<close>: the body of the composite
  aggregation, the optional \<open>query\<close> keyword argument, and the reading of a response.
\<close>

definition composite_aggr :: "pyval list \<Rightarrow> bound_aggregation list \<Rightarrow> pyval \<Rightarrow> pyval" where
  "composite_aggr sources aggregations after_key =
     (let after = (if truthy after_key then [(''after'', after_key)] else []);
          aggs = [(''composite'', PDict (dict_update [(''sources'', PList sources)] after))]
      in PDict [(''aggs'',
           PDict (if aggregations \<noteq> []
                  then dict_set aggs ''aggregations'' (aggregation_dsl aggregations)
                  else aggs))])"

definition query_kwarg :: "'b env \<Rightarrow> (string \<times> string) list \<Rightarrow> pyval \<Rightarrow> error + pyval option" where
  "query_kwarg env queries filters =
     (if truthy filters \<or> queries \<noteq> []
      then bindE (build_body env (QueryList (map snd queries)) filters) (\<lambda>q.
           bindE (subscript q ''query'') (\<lambda>qq. Inr (Some qq)))
      else Inr None)"

definition composite_request :: "index \<Rightarrow> pyval list \<Rightarrow> bound_aggregation list
    \<Rightarrow> pyval option \<Rightarrow> pyval \<Rightarrow> pyval option \<Rightarrow> search_request" where
  "composite_request ix sources aggregations runtime_mappings after_key query =
     \<lparr>sr_index = joined_index ix, sr_size = 0, sr_query = query,
      sr_aggregations = composite_aggr sources aggregations after_key,
      sr_runtime_mappings = runtime_mappings\<rparr>"

text \<open>\<open>result.get("_shards", {}).get("failures")\<close>.\<close>

definition shard_failures :: "pyval \<Rightarrow> error + pyval" where
  "shard_failures result =
     bindE (dict_get result ''_shards'' (PDict [])) (\<lambda>shards. dict_get shards ''failures'' PNone)"

text \<open>The buckets of \<open>yield from result['aggregations']['aggs']['buckets']\<close>.\<close>

definition page_buckets :: "pyval \<Rightarrow> error + pyval list" where
  "page_buckets result =
     bindE (subscript result ''aggregations'') (\<lambda>a.
     bindE (subscript a ''aggs'') (\<lambda>g.
     bindE (subscript g ''buckets'') py_iter))"

text \<open>\<open>result['aggregations']['aggs'].get('after_key')\<close>.\<close>

definition page_after_key :: "pyval \<Rightarrow> error + pyval" where
  "page_after_key result =
     bindE (subscript result ''aggregations'') (\<lambda>a.
     bindE (subscript a ''aggs'') (\<lambda>g. dict_get g ''after_key'' PNone))"

text \<open>
  \<open>_elastic_aggregate\<close> is a generator, and the loop that consumes it runs between its
  steps: the buckets of a page are handed to the loop body before the next page is
  requested, and an exception raised by the body ends the generator. The body \<open>f\<close> of the
  consuming loop is therefore an argument, and the result is the list of what the body
  makes of each bucket; with the body \<open>Inr\<close> it is \<open>list(_elastic_aggregate(...))\<close>.

  \<open>elastic_page\<close> is one activation up to the recursive call: the request, the test for
  shard failures, the buckets handed to \<open>f\<close>, and the \<open>after_key\<close> of the response.
\<close>

definition elastic_page :: "'b env \<Rightarrow> index \<Rightarrow> pyval list
    \<Rightarrow> (string \<times> string) list \<Rightarrow> pyval \<Rightarrow> bound_aggregation list \<Rightarrow> pyval option \<Rightarrow> pyval
    \<Rightarrow> (pyval \<Rightarrow> error + 'r) \<Rightarrow> 'b world \<Rightarrow> (error + 'r list \<times> pyval) \<times> 'b world" where
  "elastic_page env ix sources queries filters aggregations runtime_mappings after_key f w =
     (case query_kwarg env queries filters of
        Inl e \<Rightarrow> (Inl e, w)
      | Inr query \<Rightarrow>
          (case es w of
             Inl e \<Rightarrow> (Inl e, w)
           | Inr b \<Rightarrow>
               (case es_search env
                       (composite_request ix sources aggregations runtime_mappings after_key query)
                       b w of
                  (Inl e, w1) \<Rightarrow> (Inl e, w1)
                | (Inr result, w1) \<Rightarrow>
                    (case shard_failures result of
                       Inl e \<Rightarrow> (Inl e, w1)
                     | Inr failure \<Rightarrow>
                         if truthy failure
                         then (Inl (ExceptionWith ''Error on running aggregate search: '' failure), w1)
                         else (bindE (bindE (page_buckets result) (mapE f)) (\<lambda>rows.
                               bindE (page_after_key result) (\<lambda>after_key'.
                                 Inr (rows, after_key'))), w1)))))"
text \<open>
  The generator, drained. Each page is fetched by a further, nested activation of the
  generator, so the pages that can be fetched are bounded by the room the recursion limit
  leaves: \<open>room\<close> counts the activations that still fit, and the activation that does
  not fit raises RecursionError before it sends its request.
\<close>

fun elastic_aggregate :: "'b env \<Rightarrow> index \<Rightarrow> pyval list
    \<Rightarrow> (string \<times> string) list \<Rightarrow> pyval \<Rightarrow> bound_aggregation list \<Rightarrow> pyval option \<Rightarrow> pyval
    \<Rightarrow> (pyval \<Rightarrow> error + 'r) \<Rightarrow> nat \<Rightarrow> 'b world \<Rightarrow> (error + 'r list) \<times> 'b world" where
  "elastic_aggregate env ix sources queries filters aggregations runtime_mappings after_key f room w =
     (if room = 0 then (Inl RecursionError, w)
      else
        (case elastic_page env ix sources queries filters aggregations runtime_mappings after_key f w of
           (Inl e, w1) \<Rightarrow> (Inl e, w1)
         | (Inr (rows, after_key'), w1) \<Rightarrow>
             if truthy after_key'
             then (case elastic_aggregate env ix sources queries filters aggregations
                          runtime_mappings after_key' f (room - 1) w1 of
                     (Inl e, w2) \<Rightarrow> (Inl e, w2)
                   | (Inr rows', w2) \<Rightarrow> (Inr (rows @ rows'), w2))
             else (Inr rows, w1)))"

declare elastic_aggregate.simps [simp del]

text \<open>
  The body of the loop over the buckets in \<open>_aggregate_results\<close>: the row of one bucket.
  \<open>bucket['key']\<close> is evaluated anew for each axis of the generator expression.
\<close>

definition bucket_row :: "'b env \<Rightarrow> bound_axis list \<Rightarrow> bound_aggregation list \<Rightarrow> pyval
    \<Rightarrow> error + pyval list" where
  "bucket_row env axes aggregations bucket =
     bindE (mapE (\<lambda>ax. bindE (subscript bucket ''key'') (axis_get_value env ax)) axes) (\<lambda>row.
     bindE (subscript bucket ''doc_count'') (\<lambda>n.
       if aggregations \<noteq> []
       then bindE (mapE (\<lambda>a. agg_get_value a bucket) aggregations) (\<lambda>ms. Inr (row @ [n] @ ms))
       else Inr (row @ [n])))"

text \<open>
  A \<open>for\<close> loop whose body yields rows and may call the backend or raise: the rows of
  all rounds in order, up to the first round that raises.
\<close>

fun for_each :: "('a \<Rightarrow> 'w \<Rightarrow> (error + 'r list) \<times> 'w) \<Rightarrow> 'a list \<Rightarrow> 'w
    \<Rightarrow> (error + 'r list) \<times> 'w" where
  "for_each body [] w = (Inr [], w)"
| "for_each body (x # xs) w =
     (case body x w of
        (Inl e, w1) \<Rightarrow> (Inl e, w1)
      | (Inr rows, w1) \<Rightarrow>
          (case for_each body xs w1 of
             (Inl e, w2) \<Rightarrow> (Inl e, w2)
           | (Inr rows', w2) \<Rightarrow> (Inr (rows @ rows'), w2)))"

lemma for_each_cong [fundef_cong]:
  "xs = ys \<Longrightarrow> w = w' \<Longrightarrow> (\<And>x v. x \<in> set ys \<Longrightarrow> f x v = g x v)
   \<Longrightarrow> for_each f xs w = for_each g ys w'"
proof (induction ys arbitrary: xs w w')
  case Nil
  then show ?case by simp
next
  case (Cons y ys)
  have head: "f y v = g y v" for v
    using Cons.prems(3) by simp
  have tail: "for_each f ys v = for_each g ys v" for v
    using Cons.IH [OF refl refl] Cons.prems(3) by simp
  show ?case
    using Cons.prems(1,2) by (simp add: head tail split: prod.split sum.split)
qed

text \<open>\<open>xs.index(x)\<close>, where it is called behind a test that \<open>x\<close> occurs.\<close>

fun list_index :: "'a list \<Rightarrow> 'a \<Rightarrow> nat" where
  "list_index [] x = 0"
| "list_index (y # ys) x = (if y = x then 0 else Suc (list_index ys x))"

text \<open>\<open>t[:i] + (label,) + t[i:]\<close>.\<close>

definition insert_label :: "nat \<Rightarrow> string \<Rightarrow> pyval list \<Rightarrow> pyval list" where
  "insert_label i label t = take i t @ [PStr label] @ drop i t"

text \<open>\<open>axes[:i] + axes[(i+1):]\<close>.\<close>

definition without :: "nat \<Rightarrow> 'a list \<Rightarrow> 'a list" where
  "without i xs = take i xs @ drop (i + 1) xs"

lemma list_index_less:
  "x \<in> set xs \<Longrightarrow> list_index xs x < length xs"
  by (induction xs) auto

lemma length_without:
  "i < length xs \<Longrightarrow> length (without i xs) < length xs"
  by (simp add: without_def)

text \<open>
  \<open>_aggregate_results\<close>, drained: the rows it yields, or the exception that ends it. The
  loops that consume it (the loop of the \<open>_query\<close> branch and \<open>list\<close>) neither raise nor
  call the backend.
\<close>

function aggregate_results :: "'b env \<Rightarrow> index \<Rightarrow> bound_axis list \<Rightarrow> (string \<times> string) list
    \<Rightarrow> pyval \<Rightarrow> bound_aggregation list \<Rightarrow> 'b world \<Rightarrow> (error + pyval list list) \<times> 'b world" where
  "aggregate_results env ix axes queries filters aggregations w =
     (if axes = [] then
        (if aggregations \<noteq> [] then
           (case bare_aggregate env ix queries filters aggregations w of
              (Inl e, w1) \<Rightarrow> (Inl e, w1)
            | (Inr (n, results), w1) \<Rightarrow>
                (bindE (mapE (\<lambda>a. agg_get_value a results) aggregations) (\<lambda>ms.
                   Inr [[n] @ ms]), w1))
         else
           (case es w of
              Inl e \<Rightarrow> (Inl e, w)
            | Inr b \<Rightarrow>
                (case build_body env (QueryDict queries) filters of
                   Inl e \<Rightarrow> (Inl e, w)
                 | Inr body \<Rightarrow>
                     (case es_count env \<lparr>cr_index = joined_index ix, cr_body = body\<rparr> b w of
                        (Inl e, w1) \<Rightarrow> (Inl e, w1)
                      | (Inr result, w1) \<Rightarrow>
                          (bindE (subscript result ''count'') (\<lambda>n. Inr [[n]]), w1)))))
      else if ''_query'' \<in> set (map ba_field axes) then
        for_each (\<lambda>(label, query) v.
            case aggregate_results env ix (without (list_index (map ba_field axes) ''_query'') axes)
                   [(label, query)] filters aggregations v of
              (Inl e, v1) \<Rightarrow> (Inl e, v1)
            | (Inr rows, v1) \<Rightarrow>
                (Inr (map (insert_label (list_index (map ba_field axes) ''_query'') label) rows), v1))
          queries w
      else
        (case mapE (axis_query env) axes of
           Inl e \<Rightarrow> (Inl e, w)
         | Inr sources \<Rightarrow>
             elastic_aggregate env ix sources queries filters aggregations
               (Some (PDict (combine_mappings (map (axis_runtime_mappings env) axes) [])))
               PNone (bucket_row env axes aggregations) (recursion_room env) w))"
  by pat_completeness auto
termination
proof (relation "measure (\<lambda>(env, ix, axes, queries, filters, aggregations, w). length axes)")
  show "wf (measure (\<lambda>(env :: 'b env, ix :: index, axes :: bound_axis list,
              queries :: (string \<times> string) list, filters :: pyval,
              aggregations :: bound_aggregation list, w :: 'b world). length axes))"
    by simp
next
  fix env :: "'b env" and ix axes and queries :: "(string \<times> string) list" and filters aggregations
    and w :: "'b world" and x :: "string \<times> string" and xa xb v
  assume "''_query'' \<in> set (map ba_field axes)"
  then have "length (without (list_index (map ba_field axes) ''_query'') axes) < length axes"
    using list_index_less [of "''_query''" "map ba_field axes"] length_without by fastforce
  then show "((env, ix, without (list_index (map ba_field axes) ''_query'') axes, [(xa, xb)], filters,
               aggregations, v),
              env, ix, axes, queries, filters, aggregations, w)
             \<in> measure (\<lambda>(env, ix, axes, queries, filters, aggregations, w). length axes)"
    by simp
qed

text \<open>The test of the first statement of \<open>query_aggregate\<close>.\<close>

definition query_axis_check :: "axis list option \<Rightarrow> bool" where
  "query_axis_check axes =
     (case axes of
        None \<Rightarrow> False
      | Some xs \<Rightarrow> xs \<noteq> [] \<and> length (map (\<lambda>x. axis_field x = ''_query'') (drop 1 xs)) > 1)"

text \<open>\<open>x if x else []\<close> for an optional list.\<close>

definition or_empty :: "'a list option \<Rightarrow> 'a list" where
  "or_empty xs = (case xs of None \<Rightarrow> [] | Some ys \<Rightarrow> ys)"

text \<open>\<open>query_aggregate\<close>.\<close>

definition query_aggregate :: "'b env \<Rightarrow> index \<Rightarrow> axis list option \<Rightarrow> aggregation list option
    \<Rightarrow> py_queries \<Rightarrow> pyval \<Rightarrow> 'b world \<Rightarrow> (error + aggregate_result) \<times> 'b world" where
  "query_aggregate env ix axes aggregations queries filters w =
     (if query_axis_check axes
      then (Inl (ValueError ''Only one aggregation axis may be by query''), w)
      else
        (case mapSE (BoundAxis env ix) (or_empty axes) w of
           (Inl e, w1) \<Rightarrow> (Inl e, w1)
         | (Inr baxes, w1) \<Rightarrow>
             (case mapSE (BoundAggregation env ix) (or_empty aggregations) w1 of
                (Inl e, w2) \<Rightarrow> (Inl e, w2)
              | (Inr baggs, w2) \<Rightarrow>
                  (case normalize_queries env queries of
                     Inl e \<Rightarrow> (Inl e, w2)
                   | Inr qs \<Rightarrow>
                       (case aggregate_results env ix baxes qs filters baggs w2 of
                          (Inl e, w3) \<Rightarrow> (Inl e, w3)
                        | (Inr data, w3) \<Rightarrow>
                            (Inr \<lparr>ar_axes = baxes, ar_aggregations = baggs,
                                  ar_data = data, ar_count_column = ''n''\<rparr>, w3))))))"

section \<open>A scripted backend\<close>

text \<open>
  To run the code on concrete inputs: a backend that replays a list of responses, one per
  call, with a codec that knows the interval \<open>dayofweek\<close>, a \<open>build_body\<close> that matches
  all documents, a \<open>_normalize_queries\<close> that labels a query string with itself, and the
  recursion limit of a fresh interpreter.
\<close>

definition script_reply :: "pyval list \<Rightarrow> (error + pyval) \<times> pyval list" where
  "script_reply b = (case b of [] \<Rightarrow> (Inl (TransportError ''no response''), []) | r # rs \<Rightarrow> (Inr r, rs))"

definition dayofweek :: date_mapping where
  "dayofweek =
     \<lparr>dm_fieldname = (\<lambda>field. field @ ''_dayofweek''),
      dm_postprocess = Inr,
      dm_mapping = (\<lambda>field. [(field @ ''_dayofweek'', PDict [(''type'', PStr ''keyword'')])])\<rparr>"

definition scripted_env :: "pyval list env" where
  "scripted_env =
     \<lparr>elastic_search = (\<lambda>rq. script_reply),
      elastic_count = (\<lambda>rq. script_reply),
      elastic_get_mapping = (\<lambda>ix. script_reply),
      interval_mapping = (\<lambda>i. if i = Some ''dayofweek'' then Some dayofweek else None),
      build_body = (\<lambda>qs filters. Inr (PDict [(''query'', PDict [(''match_all'', PDict [])])])),
      normalize_queries = (\<lambda>q. case q of
                                  NoQueries \<Rightarrow> Inr []
                                | QueryDict d \<Rightarrow> Inr d
                                | QueryList xs \<Rightarrow> Inr (map (\<lambda>q. (q, q)) xs)),
      recursion_room = 1000\<rparr>"

text \<open>A world with the client set up on a script, an empty cache and no call made.\<close>

definition world0 :: "pyval list \<Rightarrow> pyval list world" where
  "world0 script = \<lparr>ES_client = Some script, FIELD_CACHE = [], calls = []\<rparr>"

text \<open>A world whose cache already knows the index \<open>ix\<close>, with a keyword field \<open>cat\<close>
  and a numeric field \<open>i\<close>.\<close>

definition fields_world :: "pyval list \<Rightarrow> pyval list world" where
  "fields_world script =
     \<lparr>ES_client = Some script,
      FIELD_CACHE =
        [(''ix'', PDict [(''cat'', PDict [(''name'', PStr ''cat''), (''type'', PStr ''keyword'')]),
                         (''i'', PDict [(''name'', PStr ''i''), (''type'', PStr ''long'')])])],
      calls = []\<rparr>"

text \<open>Three responses to a composite aggregation over \<open>cat\<close>: a page with a cursor, a last
  page, and a page on which a shard has failed.\<close>

definition shards_ok :: pyval where
  "shards_ok = PDict [(''total'', PInt 1), (''successful'', PInt 1), (''failed'', PInt 0)]"

definition bucket_a :: pyval where
  "bucket_a = PDict [(''key'', PDict [(''cat'', PStr ''a'')]), (''doc_count'', PInt 3)]"

definition bucket_b :: pyval where
  "bucket_b = PDict [(''key'', PDict [(''cat'', PStr ''b'')]), (''doc_count'', PInt 1)]"

definition page_a :: pyval where
  "page_a =
     PDict [(''_shards'', shards_ok),
            (''aggregations'',
             PDict [(''aggs'', PDict [(''after_key'', PDict [(''cat'', PStr ''a'')]),
                                      (''buckets'', PList [bucket_a])])])]"

definition page_b :: pyval where
  "page_b =
     PDict [(''_shards'', shards_ok),
            (''aggregations'', PDict [(''aggs'', PDict [(''buckets'', PList [bucket_b])])])]"

definition page_failed :: pyval where
  "page_failed =
     PDict [(''_shards'',
             PDict [(''total'', PInt 2), (''successful'', PInt 1), (''failed'', PInt 1),
                    (''failures'', PList [PDict [(''shard'', PInt 0)]])]),
            (''aggregations'', PDict [(''aggs'', PDict [(''buckets'', PList [bucket_b])])])]"

text \<open>The bucket source of an axis over \<open>cat\<close>.\<close>

definition cat_source :: pyval where
  "cat_source = PDict [(''cat'', PDict [(''terms'', PDict [(''field'', PStr ''cat'')])])]"

section \<open>Describing a paginated run\<close>

text \<open>
  A page is a response without shard failures whose buckets can be read; \<open>buckets_of\<close>
  and \<open>cursor_of\<close> are its buckets and its \<open>after_key\<close> (\<open>None\<close> when it has none).
\<close>

definition page_ok :: "pyval \<Rightarrow> bool" where
  "page_ok p \<longleftrightarrow>
     (case shard_failures p of Inr failure \<Rightarrow> \<not> truthy failure | Inl e \<Rightarrow> False)
     \<and> (case page_buckets p of Inr bs \<Rightarrow> True | Inl e \<Rightarrow> False)"

definition buckets_of :: "pyval \<Rightarrow> pyval list" where
  "buckets_of p = (case page_buckets p of Inr bs \<Rightarrow> bs | Inl e \<Rightarrow> [])"

definition cursor_of :: "pyval \<Rightarrow> pyval" where
  "cursor_of p = (case page_after_key p of Inr ak \<Rightarrow> ak | Inl e \<Rightarrow> PNone)"

text \<open>The backend, from state \<open>b\<close>, answers the search requests of the list in order with
  the responses paired to them, and is left in state \<open>b'\<close>.\<close>

fun served :: "'b env \<Rightarrow> 'b \<Rightarrow> (search_request \<times> pyval) list \<Rightarrow> 'b \<Rightarrow> bool" where
  "served env b [] b' \<longleftrightarrow> b' = b"
| "served env b ((rq, p) # rest) b' \<longleftrightarrow>
     (case elastic_search env rq b of
        (Inr r, b1) \<Rightarrow> r = p \<and> served env b1 rest b'
      | (Inl e, b1) \<Rightarrow> False)"

text \<open>The requests that go with a sequence of pages: the first with the cursor the
  aggregation is started with, each next one with the cursor of the page before.\<close>

definition page_requests :: "index \<Rightarrow> pyval list \<Rightarrow> bound_aggregation list \<Rightarrow> pyval option
    \<Rightarrow> pyval option \<Rightarrow> pyval \<Rightarrow> pyval list \<Rightarrow> search_request list" where
  "page_requests ix sources aggregations rm query ak pages =
     map (\<lambda>cursor. composite_request ix sources aggregations rm cursor query)
       (ak # map cursor_of (butlast pages))"

text \<open>
  What the log of calls shows. A request belongs to the paginated aggregation when its
  aggregations hold a composite with sources; a logged call reports the shard failure
  \<open>failure\<close> when it is such a request and its response carries a truthy
  \<open>_shards.failures\<close>.
\<close>

definition paginated :: "search_request \<Rightarrow> bool" where
  "paginated rq \<longleftrightarrow>
     (case bindE (subscript (sr_aggregations rq) ''aggs'') (\<lambda>a.
           bindE (subscript a ''composite'') (\<lambda>c. subscript c ''sources'')) of
        Inr s \<Rightarrow> True
      | Inl e \<Rightarrow> False)"

definition failure_reported :: "es_call \<times> (error + pyval) \<Rightarrow> pyval \<Rightarrow> bool" where
  "failure_reported c failure \<longleftrightarrow>
     (case c of
        (SearchCall rq, Inr result) \<Rightarrow>
          paginated rq \<and> shard_failures result = Inr failure \<and> truthy failure
      | _ \<Rightarrow> False)"

text \<open>
  The exception a result stands for, if any. \<open>tracks w eo w'\<close>: the log of \<open>w'\<close> extends
  that of \<open>w\<close>, and every shard failure reported in the extension is the exception \<open>eo\<close>;
  \<open>quiet w w'\<close>: the extension reports no shard failure.
\<close>

definition raised :: "error + 'a \<Rightarrow> error option" where
  "raised r = (case r of Inl e \<Rightarrow> Some e | Inr x \<Rightarrow> None)"

definition tracks :: "'b world \<Rightarrow> error option \<Rightarrow> 'b world \<Rightarrow> bool" where
  "tracks w eo w' \<longleftrightarrow>
     (\<exists>new. calls w' = calls w @ new \<and>
        (\<forall>c failure. c \<in> set new \<longrightarrow> failure_reported c failure \<longrightarrow>
           eo = Some (ExceptionWith ''Error on running aggregate search: '' failure)))"

definition quiet :: "'b world \<Rightarrow> 'b world \<Rightarrow> bool" where
  "quiet w w' \<longleftrightarrow>
     (\<exists>new. calls w' = calls w @ new \<and> (\<forall>c failure. c \<in> set new \<longrightarrow> \<not> failure_reported c failure))"

section \<open>Describing the runs of a query axis\<close>

text \<open>One run for each element of a list, in order, each starting in the world the run
  before it has left; the results of the runs, or the first exception.\<close>

fun run_each :: "('a \<Rightarrow> 'w \<Rightarrow> (error + 'r) \<times> 'w) \<Rightarrow> 'a list \<Rightarrow> 'w \<Rightarrow> (error + 'r list) \<times> 'w" where
  "run_each body [] w = (Inr [], w)"
| "run_each body (x # xs) w =
     (case body x w of
        (Inl e, w1) \<Rightarrow> (Inl e, w1)
      | (Inr r, w1) \<Rightarrow>
          (case run_each body xs w1 of
             (Inl e, w2) \<Rightarrow> (Inl e, w2)
           | (Inr rs, w2) \<Rightarrow> (Inr (r # rs), w2)))"

text \<open>The reduced pipeline: \<open>_aggregate_results\<close> on the axes without the one at position
  \<open>i\<close>, for the single query \<open>(label, query)\<close>.\<close>

definition reduced_pipeline :: "'b env \<Rightarrow> index \<Rightarrow> bound_axis list \<Rightarrow> nat \<Rightarrow> pyval
    \<Rightarrow> bound_aggregation list \<Rightarrow> string \<times> string \<Rightarrow> 'b world
    \<Rightarrow> (error + pyval list list) \<times> 'b world" where
  "reduced_pipeline env ix axes i filters aggregations =
     (\<lambda>(label, query) v. aggregate_results env ix (without i axes) [(label, query)] filters aggregations v)"

text \<open>
  What the specification says of the result: every tuple \<open>original\<close> of the run for
  \<open>label\<close> becomes \<open>original[:i] + (label,) + original[i:]\<close>, and the tuples of the
  labels follow each other in the order of the mapping.
\<close>

definition splice_rows :: "nat \<Rightarrow> (string \<times> string) list \<Rightarrow> pyval list list list \<Rightarrow> pyval list list" where
  "splice_rows i queries per_query =
     concat (map (\<lambda>((label, query), rows). map (\<lambda>original. take i original @ [PStr label] @ drop i original) rows)
               (zip queries per_query))"

declare aggregate_results.simps [simp del]

lemmas run_defs = query_aggregate_def query_axis_check_def Axis_def or_empty_def BoundAxis_def
  scripted_env_def world0_def script_reply_def ba_field_def without_def insert_label_def es_def
  es_count_def joined_index_def bindE_def aggregate_results.simps

lemmas eval_defs = query_aggregate_def query_axis_check_def Axis_def or_empty_def BoundAxis_def
  scripted_env_def script_reply_def ba_field_def ba_name_def ba_interval_def without_def
  insert_label_def es_def es_count_def es_search_def joined_index_def bindE_def
  aggregate_results.simps elastic_aggregate.simps elastic_page_def field_type_def get_fields_def
  get_index_fields_def fields_world_def page_a_def page_b_def page_failed_def shards_ok_def
  bucket_a_def bucket_b_def query_kwarg_def composite_request_def composite_aggr_def
  shard_failures_def page_buckets_def page_after_key_def bucket_row_def axis_get_value_def
  axis_query_def axis_runtime_mappings_def dict_update_def opt_str_def

lemmas page_defs = page_ok_def buckets_of_def cursor_of_def page_requests_def
  shard_failures_def page_buckets_def page_after_key_def bindE_def
  page_a_def page_b_def shards_ok_def bucket_a_def bucket_b_def
  scripted_env_def script_reply_def query_kwarg_def world0_def

section \<open>Bucket sources and value decoding\<close>

text \<open>
  Claim C7. For a bound axis whose field type is resolved (truthy), \<open>query()\<close> returns a dict
  with the single key \<open>name\<close>, and under it: a \<open>terms\<close> source over the field when no
  interval is given (\<open>None\<close> or the empty string); a \<open>histogram\<close> with the interval as
  bucket width when an interval is given and the type is not \<open>date\<close>; for a date with an
  interval, a \<open>terms\<close> source over the codec's field name when the codec knows the interval,
  and a \<open>date_histogram\<close> with the interval as \<open>calendar_interval\<close> when it does not.
\<close>

theorem axis_query_cases:
  assumes "truthy (ba_ftype b)"
  shows "axis_query env b =
     Inr (PDict [(ba_name b,
       (if \<not> truthy (opt_str (ba_interval b)) then
          PDict [(''terms'', PDict [(''field'', PStr (ba_field b))])]
        else if ba_ftype b \<noteq> PStr ''date'' then
          PDict [(''histogram'',
                  PDict [(''field'', PStr (ba_field b)), (''interval'', opt_str (ba_interval b))])]
        else (case interval_mapping env (ba_interval b) of
                Some m \<Rightarrow> PDict [(''terms'', PDict [(''field'', PStr (dm_fieldname m (ba_field b)))])]
              | None \<Rightarrow>
                  PDict [(''date_histogram'',
                          PDict [(''field'', PStr (ba_field b)),
                                 (''calendar_interval'', opt_str (ba_interval b))])])))])"
  using assms by (simp add: axis_query_def split: option.split)

theorem axis_query_cases_witness:
  "truthy (PStr ''date'') \<and>
   axis_query scripted_env
     \<lparr>ba_axis = Axis ''date'' (Some ''dayofweek'') None, ba_index = Index ''ix'',
      ba_ftype = PStr ''date''\<rparr>
   = Inr (PDict [(''date_dayofweek'',
            PDict [(''terms'', PDict [(''field'', PStr ''date_dayofweek'')])])])"
  using axis_query_cases [of "\<lparr>ba_axis = Axis ''date'' (Some ''dayofweek'') None, ba_index = Index ''ix'',
      ba_ftype = PStr ''date''\<rparr>" scripted_env]
  by (simp add: Axis_def ba_name_def ba_field_def ba_interval_def opt_str_def scripted_env_def dayofweek_def)

text \<open>Two conversions, computed: a key of 2018, and a key of the year 3000 that the float
  division does not keep exact.\<close>

lemma utcfromtimestamp_ms_2018:
  "utcfromtimestamp_ms (PInt 1514810096000) = Inr 1514810096000000"
  by code_simp

lemma utcfromtimestamp_ms_3000:
  "utcfromtimestamp_ms (PInt 32503680000001) = Inr 32503680000000999"
  by code_simp



text \<open>The same key with the interval \<open>hour\<close> keeps its time of day.\<close>

lemma axis_get_value_hour:
  "axis_get_value scripted_env
     \<lparr>ba_axis = Axis ''date'' (Some ''hour'') None, ba_index = Index ''ix'', ba_ftype = PStr ''date''\<rparr>
     (PDict [(''date_hour'', PInt 1514810096000)]) = Inr (PDatetime 1514810096000000)"
  by (simp add: axis_get_value_def Axis_def ba_name_def ba_interval_def scripted_env_def bindE_def
      utcfromtimestamp_ms_2018)

lemma utcfromtimestamp_ms_zero: "utcfromtimestamp_ms (PFloat 0) = Inr 0"
  by (simp add: utcfromtimestamp_ms_def float_of_def float_round_def round_half_even_def)

text \<open>
  Claim C9. \<open>BoundAggregation.get_value\<close> tests \<open>if result and ...\<close>, which is false for
  \<open>None\<close> and for zero alike. On a date field the metric value \<open>0.0\<close> (the epoch itself)
  is not \<open>None\<close> and yet comes back as the number, while \<open>BoundAxis.get_value\<close> turns the
  same key into the datetime of the epoch.
\<close>

theorem agg_get_value_zero:
  "agg_get_value \<lparr>bg_aggregation = Aggregation ''date'' ''min'' None, bg_index = Index ''ix'',
                  bg_ftype = PStr ''date''\<rparr>
     (PDict [(''min_date'', PDict [(''value'', PFloat 0)])]) = Inr (PFloat 0)
   \<and> axis_get_value scripted_env
       \<lparr>ba_axis = Axis ''date'' None None, ba_index = Index ''ix'', ba_ftype = PStr ''date''\<rparr>
       (PDict [(''date'', PFloat 0)]) = Inr (PDatetime 0)"
  by (simp add: agg_get_value_def Aggregation_def bg_name_def bindE_def axis_get_value_def Axis_def
      ba_name_def ba_interval_def scripted_env_def utcfromtimestamp_ms_zero)

section \<open>The check on the axes\<close>

text \<open>
  Claim C10. The first statement of \<open>query_aggregate\<close> measures the length of a list of
  booleans, one for each axis after the first. With three or more axes the call raises
  ValueError and leaves the world as it was (no backend call), whatever the fields of the
  axes; with at most two axes the check does not reject, also when both are \<open>_query\<close>.
\<close>

theorem query_axis_validation:
  "(3 \<le> length axes \<longrightarrow>
      query_axis_check (Some axes) \<and>
      query_aggregate env ix (Some axes) aggregations queries filters w =
        (Inl (ValueError ''Only one aggregation axis may be by query''), w))
   \<and> (length axes \<le> 2 \<longrightarrow> \<not> query_axis_check (Some axes))"
  by (auto simp add: query_aggregate_def query_axis_check_def)

theorem query_axis_validation_witness:
  "3 \<le> length [Axis ''cat'' None None, Axis ''subcat'' None None, Axis ''i'' None None] \<and>
   query_aggregate scripted_env (Index ''ix'')
     (Some [Axis ''cat'' None None, Axis ''subcat'' None None, Axis ''i'' None None])
     None NoQueries PNone (world0 []) =
     (Inl (ValueError ''Only one aggregation axis may be by query''), world0 []) \<and>
   length [Axis ''_query'' None None, Axis ''_query'' None None] \<le> 2 \<and>
   \<not> query_axis_check (Some [Axis ''_query'' None None, Axis ''_query'' None None])"
  using query_axis_validation [of "[Axis ''cat'' None None, Axis ''subcat'' None None, Axis ''i'' None None]"
      scripted_env "Index ''ix''" None NoQueries PNone "world0 []"]
    query_axis_validation [of "[Axis ''_query'' None None, Axis ''_query'' None None]"
      scripted_env "Index ''ix''" None NoQueries PNone "world0 []"]
  by simp

text \<open>
  Claim C1. Two axes that both group by \<open>_query\<close> pass the check: the call raises nothing,
  asks the backend for one count per query and returns rows that carry each label twice.
\<close>

theorem two_query_axes_accepted:
  "query_aggregate scripted_env (Index ''ix'')
     (Some [Axis ''_query'' None None, Axis ''_query'' None None]) None
     (QueryDict [(''a'', ''foo''), (''b'', ''bar'')]) PNone
     (world0 [PDict [(''count'', PInt 3)], PDict [(''count'', PInt 1)]])
   = (Inr \<lparr>ar_axes =
                   [\<lparr>ba_axis = Axis ''_query'' None None, ba_index = Index ''ix'',
                     ba_ftype = PStr ''_query''\<rparr>,
                    \<lparr>ba_axis = Axis ''_query'' None None, ba_index = Index ''ix'',
                     ba_ftype = PStr ''_query''\<rparr>],
                 ar_aggregations = [],
                 ar_data = [[PStr ''a'', PStr ''a'', PInt 3], [PStr ''b'', PStr ''b'', PInt 1]],
                 ar_count_column = ''n''\<rparr>,
           \<lparr>ES_client = Some [], FIELD_CACHE = [],
            calls =
              [(CountCall \<lparr>cr_index = Index ''ix'',
                           cr_body = PDict [(''query'', PDict [(''match_all'', PDict [])])]\<rparr>,
                Inr (PDict [(''count'', PInt 3)])),
               (CountCall \<lparr>cr_index = Index ''ix'',
                           cr_body = PDict [(''query'', PDict [(''match_all'', PDict [])])]\<rparr>,
                Inr (PDict [(''count'', PInt 1)]))]\<rparr>)"
  by (simp add: run_defs)

section \<open>Aggregating without axes\<close>

text \<open>
  Claim C8. Without queries and without filters \<open>_bare_aggregate\<close> takes the dict
  \<open>{"match_all": {}}\<close> for the body and then reads its key \<open>query\<close>: with no axes and at
  least one aggregation the call raises KeyError after the binding of the aggregations,
  before any search or count.
\<close>

theorem bare_aggregate_missing_query:
  assumes "or_empty axes = []"
    and "mapSE (BoundAggregation env ix) (or_empty aggregations) w = (Inr baggs, w1)"
    and "baggs \<noteq> []"
    and "normalize_queries env queries = Inr []"
    and "\<not> truthy filters"
    and "ES_client w1 = Some b"
  shows "query_aggregate env ix axes aggregations queries filters w = (Inl (KeyError ''query''), w1)"
proof -
  have check: "\<not> query_axis_check axes"
    using assms(1) by (auto simp add: query_axis_check_def or_empty_def split: option.splits)
  have bare: "bare_aggregate env ix [] filters baggs w1 = (Inl (KeyError ''query''), w1)"
    using assms(5,6) by (simp add: bare_aggregate_def es_def)
  have "aggregate_results env ix [] [] filters baggs w1 = (Inl (KeyError ''query''), w1)"
    using assms(3) bare by (simp add: aggregate_results.simps)
  then show ?thesis
    using check assms(1,2,4) by (simp add: query_aggregate_def)
qed

theorem bare_aggregate_missing_query_witness:
  "or_empty None = ([] :: axis list) \<and>
   mapSE (BoundAggregation scripted_env (Index ''ix'')) (or_empty (Some [Aggregation ''i'' ''avg'' None]))
     (fields_world []) =
     (Inr [\<lparr>bg_aggregation = Aggregation ''i'' ''avg'' None, bg_index = Index ''ix'',
            bg_ftype = PStr ''long''\<rparr>], fields_world []) \<and>
   normalize_queries scripted_env NoQueries = Inr [] \<and>
   \<not> truthy PNone \<and>
   ES_client (fields_world []) = Some [] \<and>
   query_aggregate scripted_env (Index ''ix'') None (Some [Aggregation ''i'' ''avg'' None]) NoQueries PNone
     (fields_world []) = (Inl (KeyError ''query''), fields_world []) \<and>
   calls (fields_world []) = []"
proof -
  have bind: "mapSE (BoundAggregation scripted_env (Index ''ix'')) (or_empty (Some [Aggregation ''i'' ''avg'' None]))
     (fields_world []) =
     (Inr [\<lparr>bg_aggregation = Aggregation ''i'' ''avg'' None, bg_index = Index ''ix'',
            bg_ftype = PStr ''long''\<rparr>], fields_world [])"
    by (simp add: or_empty_def BoundAggregation_def field_type_def get_fields_def get_index_fields_def
        fields_world_def Aggregation_def bindE_def)
  have norm: "normalize_queries scripted_env NoQueries = Inr []"
    by (simp add: scripted_env_def)
  have client: "ES_client (fields_world []) = Some []"
    by (simp add: fields_world_def)
  have none: "or_empty None = ([] :: axis list)"
    by (simp add: or_empty_def)
  show ?thesis
    using bare_aggregate_missing_query [OF none bind _ norm _ client, of PNone] bind norm client none
    by (simp add: fields_world_def)
qed

section \<open>The rows of an aggregation\<close>

lemma mapE_length: "mapE f xs = Inr ys \<Longrightarrow> length ys = length xs"
  by (induction xs arbitrary: ys) (auto split: sum.splits)

lemma mapE_all: "mapE f xs = Inr ys \<Longrightarrow> (\<And>x y. f x = Inr y \<Longrightarrow> P y) \<Longrightarrow> \<forall>y\<in>set ys. P y"
  by (induction xs arbitrary: ys) (auto split: sum.splits)

lemma mapSE_length: "mapSE f xs w = (Inr ys, w') \<Longrightarrow> length ys = length xs"
  by (induction xs arbitrary: ys w w') (auto split: sum.splits prod.splits)

lemma bucket_row_length:
  assumes "bucket_row env axes aggregations bucket = Inr row"
  shows "length row = length axes + 1 + length aggregations"
proof -
  obtain keys n where keys: "mapE (\<lambda>ax. bindE (subscript bucket ''key'') (axis_get_value env ax)) axes = Inr keys"
    and rest: "(if aggregations \<noteq> []
                then bindE (mapE (\<lambda>a. agg_get_value a bucket) aggregations) (\<lambda>ms. Inr (keys @ [n] @ ms))
                else Inr (keys @ [n])) = Inr row"
    using assms by (auto simp add: bucket_row_def bindE_def split: sum.splits)
  have len_keys: "length keys = length axes"
    using keys by (rule mapE_length)
  show ?thesis
  proof (cases "aggregations = []")
    case True
    then show ?thesis using rest len_keys by auto
  next
    case False
    then obtain ms where ms: "mapE (\<lambda>a. agg_get_value a bucket) aggregations = Inr ms"
      and row: "row = keys @ [n] @ ms"
      using rest by (auto simp add: bindE_def split: sum.splits)
    have "length ms = length aggregations"
      using ms by (rule mapE_length)
    then show ?thesis using row len_keys by simp
  qed
qed

text \<open>Induction over the pages of a run of the paginated aggregation.\<close>

lemma elastic_aggregate_induct [consumes 1, case_names exhausted raise last more_raise more]:
  fixes env :: "'b env" and f :: "pyval \<Rightarrow> error + 'r"
  assumes run: "elastic_aggregate env ix sources queries filters aggregations rm ak f room w = (res, w')"
    and exhausted: "\<And>ak w. P ak 0 w (Inl RecursionError) w"
    and raise: "\<And>ak room w e w1.
        room \<noteq> 0
        \<Longrightarrow> elastic_page env ix sources queries filters aggregations rm ak f w = (Inl e, w1)
        \<Longrightarrow> P ak room w (Inl e) w1"
    and last: "\<And>ak room w rows ak' w1.
        room \<noteq> 0
        \<Longrightarrow> elastic_page env ix sources queries filters aggregations rm ak f w = (Inr (rows, ak'), w1)
        \<Longrightarrow> \<not> truthy ak' \<Longrightarrow> P ak room w (Inr rows) w1"
    and more_raise: "\<And>ak room w rows ak' w1 e w2.
        room \<noteq> 0
        \<Longrightarrow> elastic_page env ix sources queries filters aggregations rm ak f w = (Inr (rows, ak'), w1)
        \<Longrightarrow> truthy ak'
        \<Longrightarrow> elastic_aggregate env ix sources queries filters aggregations rm ak' f (room - 1) w1
              = (Inl e, w2)
        \<Longrightarrow> P ak' (room - 1) w1 (Inl e) w2 \<Longrightarrow> P ak room w (Inl e) w2"
    and more: "\<And>ak room w rows ak' w1 rows' w2.
        room \<noteq> 0
        \<Longrightarrow> elastic_page env ix sources queries filters aggregations rm ak f w = (Inr (rows, ak'), w1)
        \<Longrightarrow> truthy ak'
        \<Longrightarrow> elastic_aggregate env ix sources queries filters aggregations rm ak' f (room - 1) w1
              = (Inr rows', w2)
        \<Longrightarrow> P ak' (room - 1) w1 (Inr rows') w2 \<Longrightarrow> P ak room w (Inr (rows @ rows')) w2"
  shows "P ak room w res w'"
  using run
proof (induction room arbitrary: ak w res w')
  case 0
  then show ?case
    using exhausted by (simp add: elastic_aggregate.simps)
next
  case (Suc n)
  obtain r w1 where page: "elastic_page env ix sources queries filters aggregations rm ak f w = (r, w1)"
    by (cases "elastic_page env ix sources queries filters aggregations rm ak f w")
  show ?case
  proof (cases r)
    case (Inl e)
    then show ?thesis
      using Suc.prems page raise [of "Suc n" ak w e w1]
      by (simp add: elastic_aggregate.simps [of _ _ _ _ _ _ _ _ _ "Suc n"])
  next
    case (Inr p)
    obtain rows ak' where p: "p = (rows, ak')"
      by (cases p)
    show ?thesis
    proof (cases "truthy ak'")
      case False
      then show ?thesis
        using Suc.prems page Inr p last [of "Suc n" ak w rows ak' w1]
        by (simp add: elastic_aggregate.simps [of _ _ _ _ _ _ _ _ _ "Suc n"])
    next
      case True
      obtain res2 w2 where rest:
        "elastic_aggregate env ix sources queries filters aggregations rm ak' f n w1 = (res2, w2)"
        by (cases "elastic_aggregate env ix sources queries filters aggregations rm ak' f n w1")
      have sub: "P ak' n w1 res2 w2"
        using rest by (rule Suc.IH)
      show ?thesis
      proof (cases res2)
        case (Inl e)
        then show ?thesis
          using Suc.prems page \<open>r = Inr p\<close> p True rest sub more_raise [of "Suc n" ak w rows ak' w1 e w2]
          by (simp add: elastic_aggregate.simps [of _ _ _ _ _ _ _ _ _ "Suc n"])
      next
        case (Inr rows')
        then show ?thesis
          using Suc.prems page \<open>r = Inr p\<close> p True rest sub more [of "Suc n" ak w rows ak' w1 rows' w2]
          by (simp add: elastic_aggregate.simps [of _ _ _ _ _ _ _ _ _ "Suc n"])
      qed
    qed
  qed
qed

lemma elastic_page_rows:
  assumes "elastic_page env ix sources queries filters aggregations rm ak f w = (Inr (rows, ak'), w1)"
  shows "\<exists>bs. mapE f bs = Inr rows"
  using assms
  by (auto simp add: elastic_page_def bindE_def split: sum.splits prod.splits if_splits)

lemma elastic_aggregate_rows:
  assumes "elastic_aggregate env ix sources queries filters aggregations rm ak f room w = (Inr rows, w')"
    and body: "\<And>bucket r. f bucket = Inr r \<Longrightarrow> Q r"
  shows "\<forall>r\<in>set rows. Q r"
proof -
  have "case (Inr rows :: error + _) of Inl e \<Rightarrow> True | Inr rs \<Rightarrow> \<forall>r\<in>set rs. Q r"
    using assms(1)
  proof (induction rule: elastic_aggregate_induct)
    case (exhausted ak w)
    then show ?case by simp
  next
    case (raise ak room w e w1)
    then show ?case by simp
  next
    case (last ak room w rows ak' w1)
    then show ?case
      using elastic_page_rows [OF last(2)] body by (auto dest: mapE_all [where P = Q])
  next
    case (more_raise ak room w rows ak' w1 e w2)
    then show ?case by simp
  next
    case (more ak room w rows ak' w1 rows' w2)
    then show ?case
      using elastic_page_rows [OF more(2)] body by (auto dest: mapE_all [where P = Q])
  qed
  then show ?thesis by simp
qed

lemma for_each_rows:
  assumes "for_each body xs w = (Inr rows, w')"
    and "\<And>x v rs v'. x \<in> set xs \<Longrightarrow> body x v = (Inr rs, v') \<Longrightarrow> \<forall>r\<in>set rs. Q r"
  shows "\<forall>r\<in>set rows. Q r"
  using assms
proof (induction xs arbitrary: w rows)
  case Nil
  then show ?case by simp
next
  case (Cons x xs)
  from Cons.prems(1) obtain rs w1 rs' where
    head: "body x w = (Inr rs, w1)" and tail: "for_each body xs w1 = (Inr rs', w')"
    and rows: "rows = rs @ rs'"
    by (auto split: sum.splits prod.splits)
  have "\<forall>r\<in>set rs. Q r"
    using Cons.prems(2) [OF _ head] by simp
  moreover have "\<forall>r\<in>set rs'. Q r"
  proof (rule Cons.IH [OF tail])
    fix y v rs2 v'
    assume "y \<in> set xs" and "body y v = (Inr rs2, v')"
    then show "\<forall>r\<in>set rs2. Q r"
      using Cons.prems(2) [of y v rs2 v'] by simp
  qed
  ultimately show ?case using rows by auto
qed

lemma length_insert_label: "length (insert_label i label t) = length t + 1"
  by (simp add: insert_label_def)

lemma length_without_eq: "i < length xs \<Longrightarrow> length (without i xs) + 1 = length xs"
  by (simp add: without_def)

lemma aggregate_results_width:
  "aggregate_results env ix axes queries filters aggregations w = (Inr rows, w')
   \<Longrightarrow> \<forall>row\<in>set rows. length row = length axes + 1 + length aggregations"
proof (induction env ix axes queries filters aggregations w arbitrary: rows w'
    rule: aggregate_results.induct)
  case (1 env ix axes queries filters aggregations w)
  note run = "1.prems"
  show ?case
  proof (cases "axes = []")
    case True
    show ?thesis
    proof (cases "aggregations = []")
      case True
      then show ?thesis
        using run \<open>axes = []\<close>
        by (auto simp add: aggregate_results.simps bindE_def split: sum.splits prod.splits)
    next
      case False
      then obtain n results ms where "mapE (\<lambda>a. agg_get_value a results) aggregations = Inr ms"
        and "rows = [[n] @ ms]"
        using run \<open>axes = []\<close>
        by (auto simp add: aggregate_results.simps bindE_def split: sum.splits prod.splits)
      then show ?thesis
        using \<open>axes = []\<close> by (auto dest: mapE_length)
    qed
  next
    case False
    show ?thesis
    proof (cases "''_query'' \<in> set (map ba_field axes)")
      case True
      let ?i = "list_index (map ba_field axes) ''_query''"
      let ?body = "\<lambda>(label, query) v.
            case aggregate_results env ix (without ?i axes) [(label, query)] filters aggregations v of
              (Inl e, v1) \<Rightarrow> (Inl e, v1)
            | (Inr rows, v1) \<Rightarrow> (Inr (map (insert_label ?i label) rows), v1)"
      have loop: "for_each ?body queries w = (Inr rows, w')"
        using run False True by (simp add: aggregate_results.simps)
      have i: "?i < length axes"
        using list_index_less [of "''_query''" "map ba_field axes"] True by simp
      have "\<forall>r\<in>set rs. length r = length axes + 1 + length aggregations"
        if x: "x \<in> set queries" and b: "?body x v = (Inr rs, v')" for x v rs v'
      proof -
        obtain label query where lq: "x = (label, query)"
          by (cases x)
        obtain inner where inner: "aggregate_results env ix (without ?i axes) [(label, query)]
            filters aggregations v = (Inr inner, v')"
          and rs: "rs = map (insert_label ?i label) inner"
          using b lq by (auto split: sum.splits prod.splits)
        have "\<forall>row\<in>set inner. length row = length (without ?i axes) + 1 + length aggregations"
          using "1.IH" [OF False True x lq [symmetric] inner] .
        then show ?thesis
          using rs length_without_eq [OF i] by (auto simp add: length_insert_label)
      qed
      then show ?thesis
        using for_each_rows [OF loop] by blast
    next
      case no_query: False
      obtain sources where "elastic_aggregate env ix sources queries filters aggregations
           (Some (PDict (combine_mappings (map (axis_runtime_mappings env) axes) [])))
           PNone (bucket_row env axes aggregations) (recursion_room env) w = (Inr rows, w')"
        using run False no_query
        by (auto simp add: aggregate_results.simps split: sum.splits)
      then show ?thesis
        by (rule elastic_aggregate_rows) (rule bucket_row_length)
    qed
  qed
qed

text \<open>
  Claim C5. Whenever \<open>query_aggregate\<close> returns a result, by whichever of the three paths
  (paginated composite aggregation, one run per query, no axes), every row has as many
  entries as there are axes, counting a \<open>_query\<close> axis, plus one for the count, plus the
  number of aggregations.
\<close>

theorem row_width:
  assumes "query_aggregate env ix axes aggregations queries filters w = (Inr r, w')"
  shows "\<forall>row\<in>set (ar_data r). length row = length (or_empty axes) + 1 + length (or_empty aggregations)"
proof -
  from assms obtain baxes w1 baggs w2 qs where
    axes: "mapSE (BoundAxis env ix) (or_empty axes) w = (Inr baxes, w1)"
    and aggs: "mapSE (BoundAggregation env ix) (or_empty aggregations) w1 = (Inr baggs, w2)"
    and run: "aggregate_results env ix baxes qs filters baggs w2 = (Inr (ar_data r), w')"
    by (auto simp add: query_aggregate_def split: if_splits sum.splits prod.splits)
  have "length baxes = length (or_empty axes)" "length baggs = length (or_empty aggregations)"
    using axes aggs by (auto dest: mapSE_length)
  then show ?thesis
    using aggregate_results_width [OF run] by simp
qed

theorem row_width_witness:
  "fst (query_aggregate scripted_env (Index ''ix'') (Some [Axis ''cat'' None None]) None
      NoQueries PNone (fields_world [page_a, page_b])) =
     Inr \<lparr>ar_axes = [\<lparr>ba_axis = Axis ''cat'' None None, ba_index = Index ''ix'',
                        ba_ftype = PStr ''keyword''\<rparr>],
           ar_aggregations = [],
           ar_data = [[PStr ''a'', PInt 3], [PStr ''b'', PInt 1]],
           ar_count_column = ''n''\<rparr>
   \<and> map length [[PStr ''a'', PInt 3], [PStr ''b'', PInt 1]]
       = [length (or_empty (Some [Axis ''cat'' None None])) + 1 + length (or_empty (None :: aggregation list option)),
          length (or_empty (Some [Axis ''cat'' None None])) + 1 + length (or_empty (None :: aggregation list option))]"
proof -
  let ?r = "\<lparr>ar_axes = [\<lparr>ba_axis = Axis ''cat'' None None, ba_index = Index ''ix'',
                          ba_ftype = PStr ''keyword''\<rparr>],
             ar_aggregations = [],
             ar_data = [[PStr ''a'', PInt 3], [PStr ''b'', PInt 1]],
             ar_count_column = ''n''\<rparr>"
  have run: "fst (query_aggregate scripted_env (Index ''ix'') (Some [Axis ''cat'' None None]) None
      NoQueries PNone (fields_world [page_a, page_b])) = Inr ?r"
    by (simp add: eval_defs)
  then obtain w' where "query_aggregate scripted_env (Index ''ix'') (Some [Axis ''cat'' None None]) None
      NoQueries PNone (fields_world [page_a, page_b]) = (Inr ?r, w')"
    by (metis prod.collapse)
  from row_width [OF this] run show ?thesis
    by simp
qed

end
